theory Spec2Isabelle
  imports Main "HOL-Library.Word"
begin

unbundle bit_operations_syntax

section \<open>The LCD driver of lcd.c\<close>

text \<open>
  The driver talks to an HD44780-family display over six output lines and waits with a
  hardware timer. It returns nothing: everything it does is a side effect on the lines and
  on time. The model makes both explicit. The state is the level of every line together
  with the trace of what has been emitted so far, and every function of lcd.c takes the
  state and returns the new one.
\<close>

subsection \<open>C types\<close>

text \<open>
  The target is an STM32G0 (ARM Cortex-M0+): \<open>char\<close> has 8 bits and is unsigned, \<open>int\<close>
  has 32 bits, \<open>uint16_t\<close> and \<open>uint32_t\<close> are what they say. An argument of type
  \<open>char\<close> is promoted to \<open>int\<close> before \<open>>>\<close> and \<open>&\<close> are applied (\<open>char_to_int\<close>), and
  an \<open>int\<close> stored into a \<open>char\<close> keeps its low eight bits (\<open>int_to_char\<close>).
\<close>

type_synonym char_t = "8 word"
type_synonym int_t = "32 word"
type_synonym uint16_t = "16 word"
type_synonym uint32_t = "32 word"

definition char_to_int :: "char_t \<Rightarrow> int_t" where
  "char_to_int c = ucast c"

definition int_to_char :: "int_t \<Rightarrow> char_t" where
  "int_to_char i = ucast i"

subsection \<open>Lines, events and the state\<close>

text \<open>
  The six pins that lcd.c names by the macros of main.h: the mode-select line RS, the four
  data lines DB7 to DB4 and the strobe line EN. They are taken to be six different pins.
\<close>

datatype line = RS_Pin | DB7_Pin | DB6_Pin | DB5_Pin | DB4_Pin | EN_Pin

text \<open>
  What an observer of the bus sees: a line driven to a level (\<open>True\<close> is high), one tick
  of the microsecond timer going by while the driver polls it, and a request to the
  millisecond delay of the HAL.
\<close>

datatype event = GPIO_Write line bool | Tick | Wait_ms uint32_t

record lcd_bus =
  lines :: "line \<Rightarrow> bool"
  trace :: "event list"

subsection \<open>The primitives the driver consumes\<close>

text \<open>
  Modelled from the spec: \<open>HAL_GPIO_WritePin\<close> belongs to the vendor's HAL, not to this
  repository; the spec gives it as \<open>set_line(line_id, level: high|low)\<close>. The third
  argument is the pin state, 0 for low and anything else for high.
\<close>

definition HAL_GPIO_WritePin :: "line \<Rightarrow> int_t \<Rightarrow> lcd_bus \<Rightarrow> lcd_bus" where
  "HAL_GPIO_WritePin pin PinState s =
     s\<lparr>lines := (lines s)(pin := (PinState \<noteq> 0)),
       trace := trace s @ [GPIO_Write pin (PinState \<noteq> 0)]\<rparr>"

text \<open>
  Modelled from the spec: \<open>HAL_Delay\<close> belongs to the vendor's HAL; the spec gives it as
  \<open>wait_milliseconds(n)\<close>, an opaque primitive that blocks for at least \<open>n\<close> milliseconds.
  The model records the request.
\<close>

definition HAL_Delay :: "uint32_t \<Rightarrow> lcd_bus \<Rightarrow> lcd_bus" where
  "HAL_Delay ms s = s\<lparr>trace := trace s @ [Wait_ms ms]\<rparr>"

text \<open>
  Modelled from the spec: the counter behind \<open>__HAL_TIM_SET_COUNTER\<close> and
  \<open>__HAL_TIM_GET_COUNTER\<close> is hardware; the spec gives it as a free-running, monotonically
  increasing counter with a tick period of one microsecond. It has 16 bits and counts
  through all of them. Between two reads of the polling loop that find the counter below
  the target, the model lets one tick go by; a tick is the unit of time of the trace.
\<close>

definition timer_tick :: "lcd_bus \<Rightarrow> lcd_bus" where
  "timer_tick s = s\<lparr>trace := trace s @ [Tick]\<rparr>"

subsection \<open>Delay\<close>

text \<open>
  \<^verbatim>\<open>void Delay(uint16_t microseconds)
  {
      __HAL_TIM_SET_COUNTER(&timer, 0);
      while(__HAL_TIM_GET_COUNTER(&timer) < microseconds);
  }\<close>
  The counter is set to zero on entry, so the value it had before does not matter and the
  state does not carry it: the loop takes the counter as its second argument.
\<close>

function Delay_loop :: "uint16_t \<Rightarrow> uint16_t \<Rightarrow> lcd_bus \<Rightarrow> lcd_bus" where
  "Delay_loop microseconds cnt s =
     (if cnt < microseconds then Delay_loop microseconds (cnt + 1) (timer_tick s) else s)"
  by pat_completeness auto
termination
proof (relation "measure (\<lambda>(microseconds, cnt, s). unat microseconds - unat cnt)")
  show "wf (measure (\<lambda>(microseconds :: uint16_t, cnt :: uint16_t, s :: lcd_bus).
              unat microseconds - unat cnt))"
    by simp
next
  fix microseconds cnt :: uint16_t and s :: lcd_bus
  assume less: "cnt < microseconds"
  then have "1 + cnt \<noteq> 0"
    by (metis neg_eq_iff_add_eq_0 word_order.extremum_strict)
  then have "unat (cnt + 1) = Suc (unat cnt)"
    by (simp add: unatSuc add.commute)
  with less show "((microseconds, cnt + 1, timer_tick s), (microseconds, cnt, s))
      \<in> measure (\<lambda>(microseconds, cnt, s). unat microseconds - unat cnt)"
    by (simp add: word_less_nat_alt)
qed

declare Delay_loop.simps [simp del]

definition Delay :: "uint16_t \<Rightarrow> lcd_bus \<Rightarrow> lcd_bus" where
  "Delay microseconds s = Delay_loop microseconds 0 s"

subsection \<open>The nibble transmitter\<close>

text \<open>
  \<^verbatim>\<open>void LCD_Transmit(char data, int rs)
  {
      HAL_GPIO_WritePin(RS_GPIO_Port, RS_Pin, rs);
      HAL_GPIO_WritePin(DB7_GPIO_Port, DB7_Pin, ((data>>3)&0x01));
      HAL_GPIO_WritePin(DB6_GPIO_Port, DB6_Pin, ((data>>2)&0x01));
      HAL_GPIO_WritePin(DB5_GPIO_Port, DB5_Pin, ((data>>1)&0x01));
      HAL_GPIO_WritePin(DB4_GPIO_Port, DB4_Pin, ((data>>0)&0x01));
      HAL_GPIO_WritePin(EN_GPIO_Port, EN_Pin, 1);
      Delay(20);
      HAL_GPIO_WritePin(EN_GPIO_Port, EN_Pin, 0);
      Delay(20);
  }\<close>
\<close>

definition LCD_Transmit :: "char_t \<Rightarrow> int_t \<Rightarrow> lcd_bus \<Rightarrow> lcd_bus" where
  "LCD_Transmit data rs s =
     (let s = HAL_GPIO_WritePin RS_Pin rs s;
          s = HAL_GPIO_WritePin DB7_Pin (drop_bit 3 (char_to_int data) AND 0x01) s;
          s = HAL_GPIO_WritePin DB6_Pin (drop_bit 2 (char_to_int data) AND 0x01) s;
          s = HAL_GPIO_WritePin DB5_Pin (drop_bit 1 (char_to_int data) AND 0x01) s;
          s = HAL_GPIO_WritePin DB4_Pin (drop_bit 0 (char_to_int data) AND 0x01) s;
          s = HAL_GPIO_WritePin EN_Pin 1 s;
          s = Delay 20 s;
          s = HAL_GPIO_WritePin EN_Pin 0 s
      in Delay 20 s)"

subsection \<open>The command and data encoders\<close>

text \<open>
  \<^verbatim>\<open>void LCD_Command(char cmd)
  {
      char datasend;
      datasend = ((cmd>>4)&0x0F);
      LCD_Transmit(datasend,0);
      datasend = ((cmd)&0x0F);
      LCD_Transmit(datasend, 0);
  }\<close>
  and \<open>LCD_Data\<close>, the same with 1 for the second argument of \<open>LCD_Transmit\<close>.
\<close>

definition LCD_Command :: "char_t \<Rightarrow> lcd_bus \<Rightarrow> lcd_bus" where
  "LCD_Command cmd s =
     (let datasend = int_to_char (drop_bit 4 (char_to_int cmd) AND 0x0F);
          s = LCD_Transmit datasend 0 s;
          datasend = int_to_char (char_to_int cmd AND 0x0F)
      in LCD_Transmit datasend 0 s)"

definition LCD_Data :: "char_t \<Rightarrow> lcd_bus \<Rightarrow> lcd_bus" where
  "LCD_Data data s =
     (let datasend = int_to_char (drop_bit 4 (char_to_int data) AND 0x0F);
          s = LCD_Transmit datasend 1 s;
          datasend = int_to_char (char_to_int data AND 0x0F)
      in LCD_Transmit datasend 1 s)"

subsection \<open>The high-level operations\<close>

text \<open>
  \<^verbatim>\<open>void LCD_Clear(void)
  {
      LCD_Command(0x01);
      HAL_Delay(2);
  }\<close>
\<close>

definition LCD_Clear :: "lcd_bus \<Rightarrow> lcd_bus" where
  "LCD_Clear s = HAL_Delay 2 (LCD_Command 0x01 s)"

text \<open>
  \<^verbatim>\<open>void LCD_Put_Cursor(int row, int col)
  {
      switch(row)
      {
      case 0: col |= 0x80; break;
      case 1: col |= 0xC0; break;
      }
      LCD_Command(col);
  }\<close>
  The call converts the \<open>int\<close> to the \<open>char\<close> parameter of \<open>LCD_Command\<close>.
\<close>

definition LCD_Put_Cursor :: "int_t \<Rightarrow> int_t \<Rightarrow> lcd_bus \<Rightarrow> lcd_bus" where
  "LCD_Put_Cursor row col s =
     (let col = (if row = 0 then col OR 0x80 else if row = 1 then col OR 0xC0 else col)
      in LCD_Command (int_to_char col) s)"

text \<open>
  \<^verbatim>\<open>void LCD_Init(void)
  {
      HAL_Delay(50);
      LCD_Command(0x30);
      HAL_Delay(5);
      LCD_Command(0x30);
      HAL_Delay(1);
      LCD_Command(0x30);
      HAL_Delay(10);
      LCD_Command(0x20);
      HAL_Delay(10);
      LCD_Command(0x28);
      HAL_Delay(1);
      LCD_Command(0x08);
      HAL_Delay(1);
      LCD_Command(0x01);
      HAL_Delay(1);
      LCD_Command(0x06);
      HAL_Delay(1);
      LCD_Command(0x0C);
  }\<close>
\<close>

definition LCD_Init :: "lcd_bus \<Rightarrow> lcd_bus" where
  "LCD_Init s =
     (let s = HAL_Delay 50 s;
          s = LCD_Command 0x30 s;
          s = HAL_Delay 5 s;
          s = LCD_Command 0x30 s;
          s = HAL_Delay 1 s;
          s = LCD_Command 0x30 s;
          s = HAL_Delay 10 s;
          s = LCD_Command 0x20 s;
          s = HAL_Delay 10 s;
          s = LCD_Command 0x28 s;
          s = HAL_Delay 1 s;
          s = LCD_Command 0x08 s;
          s = HAL_Delay 1 s;
          s = LCD_Command 0x01 s;
          s = HAL_Delay 1 s;
          s = LCD_Command 0x06 s;
          s = HAL_Delay 1 s
      in LCD_Command 0x0C s)"

text \<open>
  \<^verbatim>\<open>void LCD_String(char *str)
  {
      while(*str) LCD_Data(*str++);
  }\<close>
  The argument of the model is the content of the array that \<open>str\<close> points into, from
  \<open>str\<close> to the end of the array. The loop reads one element per round and stops at the
  first zero. Where the array holds no zero the loop reads past its end, which C leaves
  undefined: the model returns \<open>None\<close>.
\<close>

fun LCD_String :: "char_t list \<Rightarrow> lcd_bus \<Rightarrow> lcd_bus option" where
  "LCD_String [] s = None"
| "LCD_String (c # str) s = (if c \<noteq> 0 then LCD_String str (LCD_Data c s) else Some s)"

section \<open>What the spec calls things\<close>

text \<open>
  The definitions of this section are not translations of lcd.c. They follow the words of
  the spec, and the theorems below compare the driver with them.
\<close>

text \<open>
  The transfer mode of the spec, \<open>mode: {instruction, data}\<close>, and the mode that a value
  of the parameter \<open>rs\<close> selects: the mode-select line is high for data.
\<close>

datatype mode = Instruction | Data

definition mode_of :: "int_t \<Rightarrow> mode" where
  "mode_of rs = (if rs \<noteq> 0 then Data else Instruction)"

text \<open>
  A nibble transmission, after section 4.2 of the spec: the mode-select line, the four
  data lines from the most significant bit down, the strobe raised, 20 microseconds, the
  strobe lowered, 20 microseconds.
\<close>

definition nibble_transmission :: "mode \<Rightarrow> 4 word \<Rightarrow> event list" where
  "nibble_transmission m nibble =
     [GPIO_Write RS_Pin (m = Data),
      GPIO_Write DB7_Pin (bit nibble 3),
      GPIO_Write DB6_Pin (bit nibble 2),
      GPIO_Write DB5_Pin (bit nibble 1),
      GPIO_Write DB4_Pin (bit nibble 0),
      GPIO_Write EN_Pin True] @ replicate 20 Tick @
     [GPIO_Write EN_Pin False] @ replicate 20 Tick"

text \<open>
  The transfer of a byte, after section 4.3 of the spec: the nibble \<open>(v>>4)&0xF\<close>, then
  the nibble \<open>v&0xF\<close>, in the same mode.
\<close>

definition byte_transfer :: "mode \<Rightarrow> char_t \<Rightarrow> event list" where
  "byte_transfer m v =
     nibble_transmission m (ucast (drop_bit 4 v AND 0x0F)) @
     nibble_transmission m (ucast (v AND 0x0F))"

subsection \<open>Observing a run\<close>

text \<open>A bus with every line low on which nothing has happened yet.\<close>

definition idle_bus :: lcd_bus where
  "idle_bus = \<lparr>lines = (\<lambda>pin. False), trace = []\<rparr>"

text \<open>The same bus with the strobe line high.\<close>

definition strobe_high_bus :: lcd_bus where
  "strobe_high_bus = idle_bus\<lparr>lines := (lines idle_bus)(EN_Pin := True)\<rparr>"

text \<open>What an operation adds to the trace when it runs from the state \<open>s\<close>.\<close>

definition emitted :: "(lcd_bus \<Rightarrow> lcd_bus) \<Rightarrow> lcd_bus \<Rightarrow> event list" where
  "emitted f s = drop (length (trace s)) (trace (f s))"

text \<open>The levels that a piece of trace writes to one line, in order.\<close>

fun writes_to :: "line \<Rightarrow> event list \<Rightarrow> bool list" where
  "writes_to pin [] = []"
| "writes_to pin (GPIO_Write p level # es) =
     (if p = pin then level # writes_to pin es else writes_to pin es)"
| "writes_to pin (Tick # es) = writes_to pin es"
| "writes_to pin (Wait_ms ms # es) = writes_to pin es"

text \<open>
  The nine commands of the initialisation, and the millisecond delay that follows each
  command in a piece of trace: \<open>delays_following cs es\<close> reads \<open>es\<close> as the transfers of
  the commands \<open>cs\<close> in order, and gives for each command the delay right after its
  transfer, \<open>None\<close> where no delay comes before the next transfer or the end. It is
  \<open>None\<close> as a whole where \<open>es\<close> is not of that shape.
\<close>

definition init_commands :: "char_t list" where
  "init_commands = [0x30, 0x30, 0x30, 0x20, 0x28, 0x08, 0x01, 0x06, 0x0C]"

fun after_prefix :: "event list \<Rightarrow> event list \<Rightarrow> event list option" where
  "after_prefix [] es = Some es"
| "after_prefix (p # ps) [] = None"
| "after_prefix (p # ps) (e # es) = (if p = e then after_prefix ps es else None)"

fun delays_following :: "char_t list \<Rightarrow> event list \<Rightarrow> uint32_t option list option" where
  "delays_following [] es = (if es = [] then Some [] else None)"
| "delays_following (c # cs) es =
     (case after_prefix (byte_transfer Instruction c) es of
        None \<Rightarrow> None
      | Some [] \<Rightarrow> map_option (Cons None) (delays_following cs [])
      | Some (Wait_ms d # r) \<Rightarrow> map_option (Cons (Some d)) (delays_following cs r)
      | Some (e # r) \<Rightarrow> map_option (Cons None) (delays_following cs (e # r)))"

text \<open>
  The delays as the spec's testable property has them: a delay after every one of the nine
  commands, none of them zero, and the delays after the first three commands decreasing.
\<close>

definition every_command_delayed :: "uint32_t option list \<Rightarrow> bool" where
  "every_command_delayed ds = (length ds = 9 \<and> None \<notin> set ds \<and> Some 0 \<notin> set ds)"

definition first_three_decreasing :: "uint32_t option list \<Rightarrow> bool" where
  "first_three_decreasing ds =
     (case take 3 ds of
        [Some d1, Some d2, Some d3] \<Rightarrow> d2 < d1 \<and> d3 < d2
      | _ \<Rightarrow> False)"

section \<open>Properties of the primitives and of the transmitter\<close>

lemma Delay_loop_eq:
  "cnt \<le> microseconds \<Longrightarrow>
   Delay_loop microseconds cnt s =
     s\<lparr>trace := trace s @ replicate (unat microseconds - unat cnt) Tick\<rparr>"
proof (induction microseconds cnt s rule: Delay_loop.induct)
  case (1 microseconds cnt s)
  show ?case
  proof (cases "cnt < microseconds")
    case True
    then have "1 + cnt \<noteq> 0"
      by (metis neg_eq_iff_add_eq_0 word_order.extremum_strict)
    then have suc: "unat (cnt + 1) = Suc (unat cnt)"
      by (simp add: unatSuc add.commute)
    from True have le: "cnt + 1 \<le> microseconds"
      by (simp add: inc_le)
    from True have "unat microseconds - unat cnt = Suc (unat microseconds - unat (cnt + 1))"
      by (simp add: suc word_less_nat_alt)
    with True "1.IH" [OF True le] show ?thesis
      by (simp add: Delay_loop.simps [of microseconds cnt] timer_tick_def)
  next
    case False
    with "1.prems" have "cnt = microseconds" by simp
    then show ?thesis
      by (simp add: Delay_loop.simps [of microseconds])
  qed
qed

text \<open>The delay returns, after as many ticks as it was asked for, and touches no line.\<close>

lemma Delay_eq:
  "Delay microseconds s = s\<lparr>trace := trace s @ replicate (unat microseconds) Tick\<rparr>"
  by (simp add: Delay_def Delay_loop_eq)

lemma pin_bit: "(drop_bit n (char_to_int data) AND 0x01 \<noteq> 0) = bit data n"
proof -
  have "drop_bit n (char_to_int data) AND 1 = of_bool (odd (drop_bit n (char_to_int data)))"
    by (simp only: and_one_eq mod_2_eq_odd)
  moreover have "odd (drop_bit n (char_to_int data)) = bit (char_to_int data) n"
    by (rule bit_iff_odd_drop_bit [symmetric])
  moreover have "bit (char_to_int data) n = bit data n"
    by (auto simp: char_to_int_def bit_ucast_iff dest: bit_imp_le_length)
  ultimately show ?thesis
    by (simp del: bit_iff_odd_drop_bit)
qed

lemma pin_bit0: "(char_to_int data AND 0x01 \<noteq> 0) = bit data 0"
  using pin_bit [of 0 data] by simp

lemma and_0F: "(x :: 'a::len word) AND 0x0F = take_bit 4 x"
  by (simp add: take_bit_eq_mask mask_eq_exp_minus_1)

lemma LCD_Transmit_eq:
  "LCD_Transmit data rs s =
     s\<lparr>lines := (lines s)(RS_Pin := (rs \<noteq> 0), DB7_Pin := bit data 3, DB6_Pin := bit data 2,
         DB5_Pin := bit data 1, DB4_Pin := bit data 0, EN_Pin := False),
       trace := trace s @ nibble_transmission (mode_of rs) (ucast data)\<rparr>"
  by (simp add: LCD_Transmit_def Let_def HAL_GPIO_WritePin_def Delay_eq
      nibble_transmission_def mode_of_def bit_ucast_iff pin_bit pin_bit0)

lemma high_nibble:
  "(ucast (int_to_char (drop_bit 4 (char_to_int v) AND 0x0F)) :: 4 word) =
   ucast (drop_bit 4 v AND 0x0F)"
  by (rule bit_word_eqI)
     (auto simp: int_to_char_def char_to_int_def and_0F bit_simps add.commute)

lemma low_nibble:
  "(ucast (int_to_char (char_to_int v AND 0x0F)) :: 4 word) = ucast (v AND 0x0F)"
  by (rule bit_word_eqI)
     (auto simp: int_to_char_def char_to_int_def and_0F bit_simps add.commute)

lemma low_nibble_bit:
  "bit (int_to_char (char_to_int v AND 0x0F)) n = (n < 4 \<and> bit v n)"
  by (auto simp: int_to_char_def char_to_int_def and_0F bit_simps add.commute)

text \<open>
  With a signed \<open>char\<close> the promotion extends the sign and \<open>>>\<close> shifts arithmetically.
  The expressions of the driver mask the result, and the mask removes the difference.
\<close>

lemma signed_char_high_nibble:
  "signed_drop_bit 4 (scast (v :: char_t) :: int_t) AND 0x0F =
   drop_bit 4 (char_to_int v) AND 0x0F"
  by (rule bit_word_eqI) (auto simp: char_to_int_def and_0F bit_simps)

lemma signed_char_low_nibble:
  "(scast (v :: char_t) :: int_t) AND 0x0F = char_to_int v AND 0x0F"
  by (rule bit_word_eqI) (auto simp: char_to_int_def and_0F bit_simps)

section \<open>Properties of the encoders and of the operations\<close>

lemma LCD_Command_eq:
  "LCD_Command cmd s =
     s\<lparr>lines := (lines s)(RS_Pin := False, DB7_Pin := bit cmd 3, DB6_Pin := bit cmd 2,
         DB5_Pin := bit cmd 1, DB4_Pin := bit cmd 0, EN_Pin := False),
       trace := trace s @ byte_transfer Instruction cmd\<rparr>"
  by (simp add: LCD_Command_def Let_def LCD_Transmit_eq high_nibble low_nibble low_nibble_bit
      byte_transfer_def mode_of_def)

lemma LCD_Data_eq:
  "LCD_Data data s =
     s\<lparr>lines := (lines s)(RS_Pin := True, DB7_Pin := bit data 3, DB6_Pin := bit data 2,
         DB5_Pin := bit data 1, DB4_Pin := bit data 0, EN_Pin := False),
       trace := trace s @ byte_transfer Data data\<rparr>"
  by (simp add: LCD_Data_def Let_def LCD_Transmit_eq high_nibble low_nibble low_nibble_bit
      byte_transfer_def mode_of_def)

text \<open>The transfer of a byte drives the data lines from bits 7 to 4, then from bits 3 to 0.\<close>

lemma byte_transfer_bits:
  "byte_transfer m v =
     [GPIO_Write RS_Pin (m = Data), GPIO_Write DB7_Pin (bit v 7), GPIO_Write DB6_Pin (bit v 6),
      GPIO_Write DB5_Pin (bit v 5), GPIO_Write DB4_Pin (bit v 4), GPIO_Write EN_Pin True] @
     replicate 20 Tick @ [GPIO_Write EN_Pin False] @ replicate 20 Tick @
     [GPIO_Write RS_Pin (m = Data), GPIO_Write DB7_Pin (bit v 3), GPIO_Write DB6_Pin (bit v 2),
      GPIO_Write DB5_Pin (bit v 1), GPIO_Write DB4_Pin (bit v 0), GPIO_Write EN_Pin True] @
     replicate 20 Tick @ [GPIO_Write EN_Pin False] @ replicate 20 Tick"
  by (simp add: byte_transfer_def nibble_transmission_def and_0F bit_simps)

lemma LCD_Command_trace: "trace (LCD_Command v s) = trace s @ byte_transfer Instruction v"
  by (simp add: LCD_Command_eq)

lemma LCD_Data_trace: "trace (LCD_Data v s) = trace s @ byte_transfer Data v"
  by (simp add: LCD_Data_eq)

lemma HAL_Delay_simps:
  "lines (HAL_Delay ms s) = lines s" "trace (HAL_Delay ms s) = trace s @ [Wait_ms ms]"
  by (simp_all add: HAL_Delay_def)

lemma LCD_Put_Cursor_eq:
  "LCD_Put_Cursor row col s =
     LCD_Command
       (int_to_char (if row = 0 then col OR 0x80 else if row = 1 then col OR 0xC0 else col)) s"
  by (simp add: LCD_Put_Cursor_def)

lemma LCD_Init_trace:
  "trace (LCD_Init s) =
     trace s @
     Wait_ms 50 # byte_transfer Instruction 0x30 @
     Wait_ms 5 # byte_transfer Instruction 0x30 @
     Wait_ms 1 # byte_transfer Instruction 0x30 @
     Wait_ms 10 # byte_transfer Instruction 0x20 @
     Wait_ms 10 # byte_transfer Instruction 0x28 @
     Wait_ms 1 # byte_transfer Instruction 0x08 @
     Wait_ms 1 # byte_transfer Instruction 0x01 @
     Wait_ms 1 # byte_transfer Instruction 0x06 @
     Wait_ms 1 # byte_transfer Instruction 0x0C"
  by (simp add: LCD_Init_def Let_def HAL_Delay_simps LCD_Command_trace)

lemma LCD_Init_lines:
  "lines (LCD_Init s) =
     (lines s)(RS_Pin := False, DB7_Pin := True, DB6_Pin := True, DB5_Pin := False,
       DB4_Pin := False, EN_Pin := False)"
  by (simp add: LCD_Init_def Let_def LCD_Command_eq HAL_Delay_def)

lemma LCD_Init_emitted: "emitted LCD_Init s = emitted LCD_Init idle_bus"
  by (simp add: emitted_def LCD_Init_trace)

lemma fold_LCD_Data_trace:
  "trace (fold LCD_Data chars s) = trace s @ concat (map (byte_transfer Data) chars)"
  by (induction chars arbitrary: s) (simp_all add: LCD_Data_trace)

lemma LCD_String_fold:
  "0 \<notin> set chars \<Longrightarrow> LCD_String (chars @ 0 # rest) s = Some (fold LCD_Data chars s)"
  by (induction chars arbitrary: s) auto

subsection \<open>The strobe line\<close>

lemma LCD_Transmit_EN: "lines (LCD_Transmit data rs s) EN_Pin = False"
  by (simp add: LCD_Transmit_eq)

lemma LCD_Command_EN: "lines (LCD_Command v s) EN_Pin = False"
  by (simp add: LCD_Command_eq)

lemma LCD_Data_EN: "lines (LCD_Data v s) EN_Pin = False"
  by (simp add: LCD_Data_eq)

lemma LCD_Init_EN: "lines (LCD_Init s) EN_Pin = False"
  by (simp add: LCD_Init_lines)

lemma LCD_String_EN:
  "LCD_String str s = Some s' \<Longrightarrow> \<not> lines s EN_Pin \<Longrightarrow> \<not> lines s' EN_Pin"
  by (induction str s rule: LCD_String.induct) (auto simp: LCD_Data_EN split: if_splits)

subsection \<open>The observers\<close>

lemma writes_to_append: "writes_to pin (es @ fs) = writes_to pin es @ writes_to pin fs"
  by (induction pin es rule: writes_to.induct) simp_all

lemma writes_to_ticks: "writes_to pin (replicate n Tick) = []"
  by (induction n) simp_all

lemma LCD_Transmit_strobe:
  "writes_to EN_Pin (emitted (LCD_Transmit data rs) s) = [True, False]"
  by (simp add: emitted_def LCD_Transmit_eq nibble_transmission_def writes_to_append
      writes_to_ticks)

lemma after_prefix_append: "after_prefix ps (ps @ es) = Some es"
  by (induction ps) simp_all

lemma after_prefix_self: "after_prefix ps ps = Some []"
  using after_prefix_append [of ps "[]"] by simp

lemma delays_following_wait:
  "delays_following (c # cs) (byte_transfer Instruction c @ Wait_ms d # r) =
     map_option (Cons (Some d)) (delays_following cs r)"
  by (simp add: after_prefix_append)

lemma delays_following_end:
  "delays_following [c] (byte_transfer Instruction c) = Some [None]"
  by (simp add: after_prefix_self)

subsection \<open>The low four bits\<close>

lemma unat_mod_16: "unat (d :: char_t) mod 16 = unat (take_bit 4 d)"
  by (simp add: take_bit_eq_mod unat_mod_distrib)

lemma ucast_take_bit_4: "(ucast (take_bit 4 d) :: 4 word) = ucast (d :: char_t)"
  by (rule bit_word_eqI) (simp add: bit_simps)

lemma LCD_Transmit_take_bit: "LCD_Transmit d rs s = LCD_Transmit (take_bit 4 d) rs s"
  by (simp add: LCD_Transmit_eq ucast_take_bit_4 bit_simps)

subsection \<open>An int that fits a char\<close>

lemma byte_range: "(x :: int_t) \<le> 0xFF \<longleftrightarrow> take_bit 8 x = x"
proof
  assume "x \<le> 0xFF"
  then have "x < 2 ^ 8"
    by (simp add: word_less_nat_alt word_le_nat_alt)
  then show "take_bit 8 x = x"
    by (rule less_mask_eq [unfolded take_bit_eq_mask [symmetric]])
next
  assume "take_bit 8 x = x"
  then have "x = x AND mask 8"
    by (simp add: take_bit_eq_mask)
  then have "x \<le> mask 8"
    by (metis word_and_le1)
  then show "x \<le> 0xFF"
    by (simp add: mask_eq_exp_minus_1)
qed

lemma char_round_trip: "char_to_int (int_to_char x) = take_bit 8 x"
  by (rule bit_word_eqI) (auto simp: char_to_int_def int_to_char_def bit_simps)

text \<open>Different bytes have different transfers: a transfer tells which byte was sent.\<close>

lemma byte_transfer_inject: "byte_transfer m v = byte_transfer m w \<longleftrightarrow> v = w"
proof
  assume "byte_transfer m v = byte_transfer m w"
  then have bits: "bit v 0 = bit w 0" "bit v 1 = bit w 1" "bit v 2 = bit w 2"
    "bit v 3 = bit w 3" "bit v 4 = bit w 4" "bit v 5 = bit w 5" "bit v 6 = bit w 6"
    "bit v 7 = bit w 7"
    by (simp_all add: byte_transfer_bits)
  show "v = w"
  proof (rule bit_word_eqI)
    fix n
    assume "n < LENGTH(8)"
    then have "n \<in> {0, 1, 2, 3, 4, 5, 6, 7}"
      by auto
    with bits show "bit v n = bit w n"
      by auto
  qed
qed simp

section \<open>The claims\<close>

text \<open>
  Claim C1, as the code has it. From any state, \<open>LCD_Init\<close> first asks for 50 ms and then
  emits exactly nine command transfers in a fixed order: 0x30, 0x30, 0x30, 0x20, 0x28,
  0x08, 0x01, 0x06, 0x0C. The delays asked for after the three transfers of 0x30 are 5 ms,
  1 ms and 10 ms, all non-zero; 10 ms follow 0x20 and 1 ms follows each of 0x28, 0x08,
  0x01 and 0x06. Nothing follows the transfer of 0x0C. The sequence does not depend on
  the state the call starts from, and the function takes no input.
\<close>

theorem LCD_Init_sequence:
  "trace (LCD_Init s) =
     trace s @
     Wait_ms 50 # byte_transfer Instruction 0x30 @
     Wait_ms 5 # byte_transfer Instruction 0x30 @
     Wait_ms 1 # byte_transfer Instruction 0x30 @
     Wait_ms 10 # byte_transfer Instruction 0x20 @
     Wait_ms 10 # byte_transfer Instruction 0x28 @
     Wait_ms 1 # byte_transfer Instruction 0x08 @
     Wait_ms 1 # byte_transfer Instruction 0x01 @
     Wait_ms 1 # byte_transfer Instruction 0x06 @
     Wait_ms 1 # byte_transfer Instruction 0x0C"
  by (rule LCD_Init_trace)

text \<open>
  Claim C1, as the spec states it, fails on the code. What \<open>LCD_Init\<close> emits starts
  with the wait of 50 ms. Read as the transfers of the nine commands, the rest has the
  delays 5, 1, 10, 10, 1, 1, 1, 1 after the first eight commands and no delay after the
  ninth. So not every command
  is followed by a delay, and the delays after the three transfers of 0x30 are not
  decreasing: the third is the longest.
\<close>

theorem LCD_Init_delays_counterexample:
  "hd (emitted LCD_Init idle_bus) = Wait_ms 50 \<and>
   delays_following init_commands (tl (emitted LCD_Init idle_bus)) =
     Some [Some 5, Some 1, Some 10, Some 10, Some 1, Some 1, Some 1, Some 1, None] \<and>
   \<not> every_command_delayed
         [Some 5, Some 1, Some 10, Some 10, Some 1, Some 1, Some 1, Some 1, None] \<and>
   \<not> first_three_decreasing
         [Some 5, Some 1, Some 10, Some 10, Some 1, Some 1, Some 1, Some 1, None]"
proof -
  have "emitted LCD_Init idle_bus =
     Wait_ms 50 # byte_transfer Instruction 0x30 @
     Wait_ms 5 # byte_transfer Instruction 0x30 @
     Wait_ms 1 # byte_transfer Instruction 0x30 @
     Wait_ms 10 # byte_transfer Instruction 0x20 @
     Wait_ms 10 # byte_transfer Instruction 0x28 @
     Wait_ms 1 # byte_transfer Instruction 0x08 @
     Wait_ms 1 # byte_transfer Instruction 0x01 @
     Wait_ms 1 # byte_transfer Instruction 0x06 @
     Wait_ms 1 # byte_transfer Instruction 0x0C"
    by (simp add: emitted_def LCD_Init_trace)
  then have "delays_following init_commands (tl (emitted LCD_Init idle_bus)) =
     Some [Some 5, Some 1, Some 10, Some 10, Some 1, Some 1, Some 1, Some 1, None]"
    by (simp only: list.sel init_commands_def delays_following_wait delays_following_end
        option.map)
  moreover from \<open>emitted LCD_Init idle_bus = _\<close>
  have "hd (emitted LCD_Init idle_bus) = Wait_ms 50"
    by simp
  moreover have "\<not> every_command_delayed
     [Some 5, Some 1, Some 10, Some 10, Some 1, Some 1, Some 1, Some 1, None]"
    by (simp add: every_command_delayed_def)
  moreover have "\<not> first_three_decreasing
     [Some 5, Some 1, Some 10, Some 10, Some 1, Some 1, Some 1, Some 1, None]"
    by (simp add: first_three_decreasing_def)
  ultimately show ?thesis by simp
qed

text \<open>
  Claim C2. For every 8-bit value \<open>v\<close>, \<open>LCD_Command v\<close> emits exactly two nibble
  transmissions, the nibble \<open>(v>>4)&0xF\<close> first and the nibble \<open>v&0xF\<close> second, both in
  instruction mode: the two writes to the mode-select line are both low, and the strobe is
  raised and lowered twice.
\<close>

theorem LCD_Command_two_nibbles:
  "trace (LCD_Command v s) =
     trace s @ nibble_transmission Instruction (ucast (drop_bit 4 v AND 0x0F)) @
               nibble_transmission Instruction (ucast (v AND 0x0F)) \<and>
   writes_to RS_Pin (emitted (LCD_Command v) s) = [False, False] \<and>
   writes_to EN_Pin (emitted (LCD_Command v) s) = [True, False, True, False]"
  by (simp add: LCD_Command_eq byte_transfer_def emitted_def nibble_transmission_def
      writes_to_append writes_to_ticks)

text \<open>
  Claim C3. For every data value and every mode flag, \<open>LCD_Transmit\<close> emits, in this
  order: the mode-select line set to the mode (high for data), DB7 set to bit 3 of the
  data, DB6 to bit 2, DB5 to bit 1, DB4 to bit 0, each by a write of its own, the strobe
  raised, 20 ticks of the microsecond timer, the strobe lowered, and 20 ticks again. This
  is the nibble transmission of the spec for the low four bits of the data.
\<close>

theorem LCD_Transmit_sequence:
  "trace (LCD_Transmit data rs s) =
     trace s @
     [GPIO_Write RS_Pin (mode_of rs = Data),
      GPIO_Write DB7_Pin (bit data 3),
      GPIO_Write DB6_Pin (bit data 2),
      GPIO_Write DB5_Pin (bit data 1),
      GPIO_Write DB4_Pin (bit data 0),
      GPIO_Write EN_Pin True] @ replicate 20 Tick @
     [GPIO_Write EN_Pin False] @ replicate 20 Tick \<and>
   emitted (LCD_Transmit data rs) s = nibble_transmission (mode_of rs) (ucast data)"
  by (simp add: LCD_Transmit_eq emitted_def nibble_transmission_def bit_ucast_iff)

text \<open>
  Claim C4, as the code has it. The column is an \<open>int\<close> and the parameter of
  \<open>LCD_Command\<close> a \<open>char\<close>, so the call keeps the low eight bits of what
  \<open>LCD_Put_Cursor\<close> computed. For every column \<open>c\<close>, \<open>LCD_Put_Cursor 0 c\<close> emits the
  single command transfer of the low eight bits of \<open>0x80 | c\<close>, and \<open>LCD_Put_Cursor 1 c\<close>
  that of the low eight bits of \<open>0xC0 | c\<close>; rows 0 and 1 with columns 5 and 10 give 0x85
  and 0xCA. For every other row the command is the low eight bits of the column, with no
  offset, no check and no error. Where the column is at most 255 the low eight bits are
  the whole value: the byte is \<open>0x80 | c\<close>, \<open>0xC0 | c\<close> or \<open>c\<close> itself.
\<close>

theorem LCD_Put_Cursor_address:
  "trace (LCD_Put_Cursor 0 c s) =
     trace s @ byte_transfer Instruction (int_to_char (0x80 OR c)) \<and>
   trace (LCD_Put_Cursor 1 c s) =
     trace s @ byte_transfer Instruction (int_to_char (0xC0 OR c)) \<and>
   (row \<noteq> 0 \<and> row \<noteq> 1 \<longrightarrow>
      trace (LCD_Put_Cursor row c s) = trace s @ byte_transfer Instruction (int_to_char c)) \<and>
   char_to_int (int_to_char x) = take_bit 8 x \<and>
   trace (LCD_Put_Cursor 0 5 s) = trace s @ byte_transfer Instruction 0x85 \<and>
   trace (LCD_Put_Cursor 1 10 s) = trace s @ byte_transfer Instruction 0xCA \<and>
   (c \<le> 0xFF \<longrightarrow>
      char_to_int (int_to_char (0x80 OR c)) = 0x80 OR c \<and>
      char_to_int (int_to_char (0xC0 OR c)) = 0xC0 OR c \<and>
      char_to_int (int_to_char c) = c)"
proof -
  have "trace (LCD_Put_Cursor 0 5 s) = trace s @ byte_transfer Instruction 0x85"
    and "trace (LCD_Put_Cursor 1 10 s) = trace s @ byte_transfer Instruction 0xCA"
    by (simp_all add: LCD_Put_Cursor_eq LCD_Command_trace int_to_char_def)
  moreover have "c \<le> 0xFF \<longrightarrow>
      char_to_int (int_to_char (0x80 OR c)) = 0x80 OR c \<and>
      char_to_int (int_to_char (0xC0 OR c)) = 0xC0 OR c \<and>
      char_to_int (int_to_char c) = c"
    by (simp add: char_round_trip byte_range)
  ultimately show ?thesis
    by (simp add: LCD_Put_Cursor_eq LCD_Command_trace or.commute char_round_trip)
qed

theorem LCD_Put_Cursor_address_witness:
  "(2 :: int_t) \<noteq> 0 \<and> (2 :: int_t) \<noteq> 1 \<and> (5 :: int_t) \<le> 0xFF \<and>
   trace (LCD_Put_Cursor 2 5 idle_bus) = trace idle_bus @ byte_transfer Instruction 5 \<and>
   char_to_int (int_to_char (0x80 OR 5)) = 0x85"
  using LCD_Put_Cursor_address [of 5 idle_bus 2] by (simp add: int_to_char_def)

text \<open>
  Claim C4, as the spec states it for every column value, fails on the code where the
  column does not fit into eight bits. With column 261 and row 2 the command sent is 0x05,
  which is not the raw column; with row 0 it is 0x85, which is not \<open>0x80 | 261\<close>; with
  row 1 it is 0xC5, which is not \<open>0xC0 | 261\<close>.
\<close>

theorem LCD_Put_Cursor_truncation_counterexample:
  "trace (LCD_Put_Cursor 2 261 idle_bus) = byte_transfer Instruction 0x05 \<and>
   char_to_int 0x05 \<noteq> 261 \<and>
   trace (LCD_Put_Cursor 0 261 idle_bus) = byte_transfer Instruction 0x85 \<and>
   char_to_int 0x85 \<noteq> 0x80 OR 261 \<and>
   trace (LCD_Put_Cursor 1 261 idle_bus) = byte_transfer Instruction 0xC5 \<and>
   char_to_int 0xC5 \<noteq> 0xC0 OR 261"
proof -
  have "int_to_char 261 = 0x05" and "int_to_char (0x80 OR 261) = 0x85"
    and "int_to_char (0xC0 OR 261) = 0xC5"
    by (simp_all add: int_to_char_def)
  then show ?thesis
    by (simp add: LCD_Put_Cursor_eq LCD_Command_trace char_to_int_def idle_bus_def
        or.commute)
qed

text \<open>
  Claim C5. \<open>LCD_Clear\<close> emits the command transfer of 0x01, then asks the millisecond
  delay of the HAL for 2 ms, and nothing else.
\<close>

theorem LCD_Clear_sequence:
  "trace (LCD_Clear s) = trace s @ byte_transfer Instruction 0x01 @ [Wait_ms 2]"
  by (simp add: LCD_Clear_def HAL_Delay_simps LCD_Command_trace)

text \<open>
  Claim C6. For every 8-bit value \<open>v\<close>, \<open>LCD_Data v\<close> emits exactly two nibble
  transmissions, the nibble \<open>(v>>4)&0xF\<close> first and the nibble \<open>v&0xF\<close> second, both in
  data mode: the two writes to the mode-select line are both high.
\<close>

theorem LCD_Data_two_nibbles:
  "trace (LCD_Data v s) =
     trace s @ nibble_transmission Data (ucast (drop_bit 4 v AND 0x0F)) @
               nibble_transmission Data (ucast (v AND 0x0F)) \<and>
   writes_to RS_Pin (emitted (LCD_Data v) s) = [True, True] \<and>
   writes_to EN_Pin (emitted (LCD_Data v) s) = [True, False, True, False]"
  by (simp add: LCD_Data_eq byte_transfer_def emitted_def nibble_transmission_def
      writes_to_append writes_to_ticks)

text \<open>
  Claim C7. Where the array holds the characters \<open>chars\<close>, none of them zero, then the
  zero sentinel, then anything, \<open>LCD_String\<close> returns after sending the characters by
  \<open>LCD_Data\<close> from left to right: what it emits is the data transfers of the characters in
  order, and neither the sentinel nor what comes after it adds anything. For the string
  \<open>Hi\<close> these are the data transfers of 0x48 and of 0x69.
\<close>

theorem LCD_String_sends:
  "0 \<notin> set chars \<Longrightarrow>
   LCD_String (chars @ 0 # rest) s = Some (fold LCD_Data chars s) \<and>
   trace (fold LCD_Data chars s) = trace s @ concat (map (byte_transfer Data) chars) \<and>
   map_option trace (LCD_String (map of_char ''Hi'' @ [0]) s) =
     Some (trace s @ byte_transfer Data 0x48 @ byte_transfer Data 0x69)"
  by (simp add: LCD_String_fold fold_LCD_Data_trace LCD_Data_trace)

theorem LCD_String_sends_witness:
  "(0 :: char_t) \<notin> set [0x48, 0x69] \<and>
   LCD_String ([0x48, 0x69] @ 0 # [0x21]) idle_bus =
     Some (LCD_Data 0x69 (LCD_Data 0x48 idle_bus))"
  using LCD_String_sends [of "[0x48, 0x69]" "[0x21]" idle_bus] by simp

text \<open>
  Claim C8. Two calls of \<open>LCD_Init\<close> in a row emit the same sequence twice: what the
  second call emits is what the first emitted, and that is what a call emits from any
  state. The lines are left the same after the second call as after the first.
\<close>

theorem LCD_Init_twice:
  "emitted LCD_Init (LCD_Init s) = emitted LCD_Init s \<and>
   emitted LCD_Init s = emitted LCD_Init idle_bus \<and>
   trace (LCD_Init (LCD_Init s)) =
     trace s @ emitted LCD_Init idle_bus @ emitted LCD_Init idle_bus \<and>
   lines (LCD_Init (LCD_Init s)) = lines (LCD_Init s)"
proof (intro conjI)
  show "emitted LCD_Init (LCD_Init s) = emitted LCD_Init s"
    by (simp add: LCD_Init_emitted [of "LCD_Init s"] LCD_Init_emitted [of s])
  show "emitted LCD_Init s = emitted LCD_Init idle_bus"
    by (rule LCD_Init_emitted)
  show "trace (LCD_Init (LCD_Init s)) =
      trace s @ emitted LCD_Init idle_bus @ emitted LCD_Init idle_bus"
    by (simp add: emitted_def LCD_Init_trace)
  show "lines (LCD_Init (LCD_Init s)) = lines (LCD_Init s)"
    by (simp add: LCD_Init_lines)
qed

text \<open>
  Claim C9. What \<open>LCD_Transmit\<close> does depends on the low four bits of its data argument
  and on the mode flag only: two data values that are congruent modulo 16 give the same
  state, trace and lines, from the same state and with the same flag.
\<close>

theorem LCD_Transmit_low_bits:
  "unat d mod 16 = unat d' mod 16 \<Longrightarrow> LCD_Transmit d rs s = LCD_Transmit d' rs s"
proof -
  assume "unat d mod 16 = unat d' mod 16"
  then have "take_bit 4 d = take_bit 4 d'"
    by (simp add: unat_mod_16 word_unat_eq_iff)
  then show ?thesis
    using LCD_Transmit_take_bit [of d rs s] LCD_Transmit_take_bit [of d' rs s] by simp
qed

theorem LCD_Transmit_low_bits_witness:
  "unat (0x3A :: char_t) mod 16 = unat (0xFA :: char_t) mod 16 \<and>
   LCD_Transmit 0x3A 1 idle_bus = LCD_Transmit 0xFA 1 idle_bus"
  using LCD_Transmit_low_bits [of "0x3A" "0xFA" 1 idle_bus] by simp

text \<open>
  Claim C10, as the code has it. \<open>LCD_Transmit\<close> raises the strobe once and lowers it
  once, in this order, so the strobe is low when it returns. The strobe is low after
  \<open>LCD_Command\<close>, \<open>LCD_Data\<close>, \<open>LCD_Clear\<close>, \<open>LCD_Put_Cursor\<close> and \<open>LCD_Init\<close>, from
  any state, and after \<open>LCD_String\<close> on a string with a character before the sentinel,
  from any state. On the empty string \<open>LCD_String\<close> returns the state it was entered
  with, so the strobe keeps its level. A low strobe is therefore kept low by every
  operation.
\<close>

theorem strobe_low_on_return:
  "writes_to EN_Pin (emitted (LCD_Transmit data rs) s) = [True, False] \<and>
   \<not> lines (LCD_Transmit data rs s) EN_Pin \<and>
   \<not> lines (LCD_Command v s) EN_Pin \<and>
   \<not> lines (LCD_Data v s) EN_Pin \<and>
   \<not> lines (LCD_Clear s) EN_Pin \<and>
   \<not> lines (LCD_Put_Cursor row col s) EN_Pin \<and>
   \<not> lines (LCD_Init s) EN_Pin \<and>
   (LCD_String str s = Some s' \<and> \<not> lines s EN_Pin \<longrightarrow> \<not> lines s' EN_Pin) \<and>
   (LCD_String (c # str) s = Some s' \<and> c \<noteq> 0 \<longrightarrow> \<not> lines s' EN_Pin) \<and>
   LCD_String (0 # rest) s = Some s"
proof -
  have "\<not> lines s' EN_Pin" if "LCD_String (c # str) s = Some s'" and "c \<noteq> 0"
  proof -
    from that have "LCD_String str (LCD_Data c s) = Some s'"
      by simp
    then show ?thesis
      by (rule LCD_String_EN) (simp add: LCD_Data_EN)
  qed
  moreover have "\<not> lines s' EN_Pin" if "LCD_String str s = Some s'" and "\<not> lines s EN_Pin"
    using that by (rule LCD_String_EN)
  moreover have "LCD_String (0 # rest) s = Some s"
    by simp
  ultimately show ?thesis
    by (simp add: LCD_Transmit_strobe LCD_Transmit_EN LCD_Command_EN LCD_Data_EN LCD_Clear_def
        HAL_Delay_simps LCD_Put_Cursor_eq LCD_Init_EN del: LCD_String.simps)
qed

theorem strobe_low_on_return_witness:
  "(LCD_String [0x48, 0] strobe_high_bus = Some (LCD_Data 0x48 strobe_high_bus) \<and>
    (0x48 :: char_t) \<noteq> 0 \<and> lines strobe_high_bus EN_Pin \<and>
    \<not> lines (LCD_Data 0x48 strobe_high_bus) EN_Pin) \<and>
   (LCD_String [0x48, 0] idle_bus = Some (LCD_Data 0x48 idle_bus) \<and>
    \<not> lines idle_bus EN_Pin \<and> \<not> lines (LCD_Data 0x48 idle_bus) EN_Pin)"
  using strobe_low_on_return
      [of 0 0 strobe_high_bus 0 0 0 "[0]" "LCD_Data 0x48 strobe_high_bus" "0x48"]
    strobe_low_on_return [of 0 0 idle_bus 0 0 0 "[0x48, 0]" "LCD_Data 0x48 idle_bus" 0]
  by (simp add: idle_bus_def strobe_high_bus_def)

text \<open>
  Claim C10, as the spec states it for every call of \<open>LCD_String\<close>, fails on the code.
  Entered on the empty string with the strobe high, \<open>LCD_String\<close> returns with the strobe
  still high: it has written no line and emitted nothing.
\<close>

theorem LCD_String_strobe_counterexample:
  "LCD_String [0] strobe_high_bus = Some strobe_high_bus \<and>
   lines strobe_high_bus EN_Pin"
  by (simp add: strobe_high_bus_def idle_bus_def)

end
